theory Spec2Isabelle
  imports Complex_Main "HOL-Library.Word"
begin

unbundle bit_operations_syntax

section \<open>Package pointer: data model\<close>

text \<open>
  Go's \<^verbatim>\<open>int\<close> is 32 or 64 bits wide depending on the platform. The code below only
  compares such values with zero and converts them with \<^verbatim>\<open>uint32(x)\<close>, which keeps the low
  32 bits of the two's complement representation. Both are independent of the width, so
  \<^verbatim>\<open>int\<close> is modelled by \<^typ>\<open>int\<close> and the conversion by \<^term>\<open>word_of_int\<close>.
  The sized types (\<^verbatim>\<open>uint8\<close>, \<^verbatim>\<open>uint16\<close>, \<^verbatim>\<open>uint32\<close>) are words.
\<close>

type_synonym byte = "8 word"
type_synonym uint32 = "32 word"

text \<open>\<^verbatim>\<open>image.Point\<close> and \<^verbatim>\<open>image.Rectangle\<close>.\<close>

record Point =
  X :: int
  Y :: int

record Rectangle =
  Min_pt :: Point
  Max_pt :: Point

text \<open>\<^verbatim>\<open>type Buttons uint8\<close>, \<^verbatim>\<open>type Type uint8\<close>, \<^verbatim>\<open>type areaKind uint8\<close>.\<close>

type_synonym Buttons = byte
type_synonym Type = byte
type_synonym areaKind = byte

definition ButtonPrimary :: Buttons where "ButtonPrimary = push_bit 0 1"
definition ButtonSecondary :: Buttons where "ButtonSecondary = push_bit 1 1"
definition ButtonTertiary :: Buttons where "ButtonTertiary = push_bit 2 1"

text \<open>\<^verbatim>\<open>Cancel Type = (1 << iota) >> 1\<close> and the following constants of the block.\<close>

definition Cancel :: Type where "Cancel = drop_bit 1 (push_bit 0 1)"
definition Press :: Type where "Press = drop_bit 1 (push_bit 1 1)"
definition Release :: Type where "Release = drop_bit 1 (push_bit 2 1)"
definition Move :: Type where "Move = drop_bit 1 (push_bit 3 1)"
definition Drag :: Type where "Drag = drop_bit 1 (push_bit 4 1)"
definition Enter :: Type where "Enter = drop_bit 1 (push_bit 5 1)"
definition Leave :: Type where "Leave = drop_bit 1 (push_bit 6 1)"
definition Scroll :: Type where "Scroll = drop_bit 1 (push_bit 7 1)"

definition areaRect :: areaKind where "areaRect = 0"
definition areaEllipse :: areaKind where "areaEllipse = 1"

text \<open>\<^verbatim>\<open>func (b Buttons) Contain(buttons Buttons) bool\<close>\<close>

definition Buttons_Contain :: "Buttons \<Rightarrow> Buttons \<Rightarrow> bool" where
  "Buttons_Contain b buttons = (b AND buttons = buttons)"

subsection \<open>Operation buffer\<close>

text \<open>
  \<^verbatim>\<open>event.Tag\<close> is an interface value compared by identity; \<^verbatim>\<open>nil\<close> is \<^term>\<open>None\<close> in
  the field of \<^verbatim>\<open>InputOp\<close>. The reference table of an operation buffer holds interface
  values: cursor names and tags.
\<close>

datatype event_Tag = TagId nat

type_synonym CursorName = string

datatype ref = RefCursorName CursorName | RefTag event_Tag

record Ops =
  data :: "byte list"
  refs :: "ref list"

record AreaOp =
  kind :: areaKind
  rect :: Rectangle

record CursorNameOp =
  Name :: CursorName

record InputOp =
  Tag :: "event_Tag option"
  Grab :: bool
  Types :: Type
  ScrollBounds :: Rectangle

text \<open>
  The opcodes and record lengths are constants of package \<^verbatim>\<open>internal/ops\<close>, which is
  outside the verified sources. They are parameters of the encoders.
\<close>

record ops_consts =
  TypeArea :: byte
  TypeAreaLen :: nat
  TypeCursor :: byte
  TypeCursorLen :: nat
  TypePointerInput :: byte
  TypePointerInputLen :: nat

datatype panic =
  Panic_TagNil
  | Panic_InvalidScrollRange Rectangle
  | Panic_IndexOutOfRange
  | Panic_NilDereference
  | Panic_HugeOrNegativeDimensions

text \<open>Sequencing of steps that may panic: the first panic ends the call.\<close>

definition seq :: "panic + 'a \<Rightarrow> ('a \<Rightarrow> panic + 'b) \<Rightarrow> panic + 'b" where
  "seq m f = (case m of Inl p \<Rightarrow> Inl p | Inr a \<Rightarrow> f a)"

text \<open>
  A Go slice into the buffer's bytes: the index of its first byte and its length. Writes
  through the slice are writes into the buffer.
\<close>

record slice =
  start :: nat
  extent :: nat

text \<open>
  Modelled from the spec: \<^verbatim>\<open>ops.Write\<close> and \<^verbatim>\<open>ops.Write1\<close> of package
  \<^verbatim>\<open>internal/ops\<close> are missing from the sources. By the spec, a write appends a
  fixed-length record to the append-only buffer, and a string-valued or tag payload goes
  to an out-of-band table of the same buffer, so that the record carries only a reference.
  Both return the slice of the fresh record, whose bytes are zero.
\<close>

definition Write :: "Ops \<Rightarrow> nat \<Rightarrow> Ops \<times> slice" where
  "Write ops n =
     (ops\<lparr>data := data ops @ replicate n 0\<rparr>, \<lparr>start = length (data ops), extent = n\<rparr>)"

text \<open>
  Modelled from the spec: \<^verbatim>\<open>ops.Write1\<close> (missing, see above) appends the zeroed
  record and, besides, the payload reference to the table \<open>refs\<close>.
\<close>

definition Write1 :: "Ops \<Rightarrow> nat \<Rightarrow> ref \<Rightarrow> Ops \<times> slice" where
  "Write1 ops n ref1 =
     (ops\<lparr>data := data ops @ replicate n 0, refs := refs ops @ [ref1]\<rparr>,
      \<lparr>start = length (data ops), extent = n\<rparr>)"

text \<open>\<^verbatim>\<open>d[i] = v\<close>: an index outside the slice panics.\<close>

definition store :: "slice \<Rightarrow> nat \<Rightarrow> byte \<Rightarrow> Ops \<Rightarrow> panic + Ops" where
  "store d i v ops =
     (if i < extent d then Inr (ops\<lparr>data := (data ops)[start d + i := v]\<rparr>)
      else Inl Panic_IndexOutOfRange)"

text \<open>\<^verbatim>\<open>d[i:]\<close>: panics when \<^verbatim>\<open>i\<close> is beyond the length.\<close>

definition slice_from :: "slice \<Rightarrow> nat \<Rightarrow> panic + slice" where
  "slice_from d i =
     (if i \<le> extent d then Inr \<lparr>start = start d + i, extent = extent d - i\<rparr>
      else Inl Panic_IndexOutOfRange)"

text \<open>
  \<^verbatim>\<open>binary.LittleEndian.PutUint32(b, v)\<close> of the Go library: a bounds check on
  \<^verbatim>\<open>b[3]\<close>, then \<^verbatim>\<open>b[0] = byte(v)\<close>, \<^verbatim>\<open>b[1] = byte(v >> 8)\<close>,
  \<^verbatim>\<open>b[2] = byte(v >> 16)\<close>, \<^verbatim>\<open>b[3] = byte(v >> 24)\<close>.
\<close>

definition PutUint32 :: "slice \<Rightarrow> uint32 \<Rightarrow> Ops \<Rightarrow> panic + Ops" where
  "PutUint32 b v ops =
     (if 3 < extent b then
        seq (store b 0 (ucast v) ops) (\<lambda>ops.
        seq (store b 1 (ucast (drop_bit 8 v)) ops) (\<lambda>ops.
        seq (store b 2 (ucast (drop_bit 16 v)) ops) (\<lambda>ops.
        store b 3 (ucast (drop_bit 24 v)) ops)))
      else Inl Panic_IndexOutOfRange)"

text \<open>\<^verbatim>\<open>bo.PutUint32(data[i:], uint32(x))\<close> for a Go \<^verbatim>\<open>int\<close> \<^verbatim>\<open>x\<close>.\<close>

definition put_int :: "slice \<Rightarrow> nat \<Rightarrow> int \<Rightarrow> Ops \<Rightarrow> panic + Ops" where
  "put_int d i x ops = seq (slice_from d i) (\<lambda>b. PutUint32 b (word_of_int x) ops)"

text \<open>\<^verbatim>\<open>func Rect(size image.Rectangle) AreaOp\<close>, \<^verbatim>\<open>func Ellipse(size image.Rectangle) AreaOp\<close>\<close>

definition Rect :: "Rectangle \<Rightarrow> AreaOp" where
  "Rect sz = \<lparr>kind = areaRect, rect = sz\<rparr>"

definition Ellipse :: "Rectangle \<Rightarrow> AreaOp" where
  "Ellipse sz = \<lparr>kind = areaEllipse, rect = sz\<rparr>"

text \<open>\<^verbatim>\<open>func (a AreaOp) add(o *op.Ops, push bool)\<close>\<close>

definition AreaOp_add :: "ops_consts \<Rightarrow> AreaOp \<Rightarrow> Ops \<Rightarrow> bool \<Rightarrow> panic + Ops" where
  "AreaOp_add K a ops push =
     (case Write ops (TypeAreaLen K) of (ops, d) \<Rightarrow>
        seq (store d 0 (TypeArea K) ops) (\<lambda>ops.
        seq (store d 1 (kind a) ops) (\<lambda>ops.
        seq (put_int d 2 (X (Min_pt (rect a))) ops) (\<lambda>ops.
        seq (put_int d 6 (Y (Min_pt (rect a))) ops) (\<lambda>ops.
        seq (put_int d 10 (X (Max_pt (rect a))) ops) (\<lambda>ops.
        put_int d 14 (Y (Max_pt (rect a))) ops))))))"

text \<open>\<^verbatim>\<open>func (op CursorNameOp) Add(o *op.Ops)\<close>\<close>

definition CursorNameOp_Add :: "ops_consts \<Rightarrow> CursorNameOp \<Rightarrow> Ops \<Rightarrow> panic + Ops" where
  "CursorNameOp_Add K c ops =
     (case Write1 ops (TypeCursorLen K) (RefCursorName (Name c)) of (ops, d) \<Rightarrow>
        store d 0 (TypeCursor K) ops)"

text \<open>\<^verbatim>\<open>func (op InputOp) Add(o *op.Ops)\<close>\<close>

definition InputOp_Add :: "ops_consts \<Rightarrow> InputOp \<Rightarrow> Ops \<Rightarrow> panic + Ops" where
  "InputOp_Add K h ops =
     (case Tag h of
        None \<Rightarrow> Inl Panic_TagNil
      | Some t \<Rightarrow>
          (let b = ScrollBounds h in
           if 0 < X (Min_pt b) \<or> X (Max_pt b) < 0 \<or> 0 < Y (Min_pt b) \<or> Y (Max_pt b) < 0
           then Inl (Panic_InvalidScrollRange b)
           else
             (case Write1 ops (TypePointerInputLen K) (RefTag t) of (ops, d) \<Rightarrow>
                seq (store d 0 (TypePointerInput K) ops) (\<lambda>ops.
                seq (if Grab h then store d 1 1 ops else Inr ops) (\<lambda>ops.
                seq (store d 2 (Types h) ops) (\<lambda>ops.
                seq (put_int d 3 (X (Min_pt (ScrollBounds h))) ops) (\<lambda>ops.
                seq (put_int d 7 (Y (Min_pt (ScrollBounds h))) ops) (\<lambda>ops.
                seq (put_int d 11 (X (Max_pt (ScrollBounds h))) ops) (\<lambda>ops.
                put_int d 15 (Y (Max_pt (ScrollBounds h))) ops)))))))))"

text \<open>
  The byte layout the spec states for a rectangle coordinate: four bytes, least
  significant first, of the coordinate's low 32 bits.
\<close>

definition le32 :: "int \<Rightarrow> byte list" where
  "le32 x = [word_of_int (x mod 256), word_of_int (x div 256 mod 256),
             word_of_int (x div 65536 mod 256), word_of_int (x div 16777216 mod 256)]"

subsection \<open>Events and scroll delivery\<close>

text \<open>
  Go's \<^verbatim>\<open>float32\<close>: a NaN, the two infinities, or a finite value. The finite values are
  reals here; a \<^verbatim>\<open>float32\<close> holds only those with a significand of 24 bits, so the type is
  a superset of the finite values of the machine. What matters below is the conversion
  from \<^verbatim>\<open>int\<close>, which rounds to such a value, and the comparison, which is false as soon
  as one side is NaN.
\<close>

datatype float32 = F32_NaN | F32_NegInf | F32_PosInf | F32 real







text \<open>\<^verbatim>\<open>f32.Point\<close>\<close>

record f32_Point =
  Xf :: float32
  Yf :: float32

record Event =
  Type :: Type
  Source :: byte
  PointerID :: "16 word"
  Priority :: byte
  Time :: "64 word"
  Buttons :: Buttons
  Position :: f32_Point
  Scroll_e :: f32_Point
  Modifiers :: "32 word"








text \<open>Whether a call ended in a panic.\<close>

definition panics :: "panic + 'a \<Rightarrow> bool" where
  "panics r = (case r of Inl p \<Rightarrow> True | Inr a \<Rightarrow> False)"

text \<open>Sample values of the constants of \<^verbatim>\<open>internal/ops\<close>, for concrete runs.\<close>

definition sample_consts :: ops_consts where
  "sample_consts = \<lparr>TypeArea = 38, TypeAreaLen = 18, TypeCursor = 40, TypeCursorLen = 1,
     TypePointerInput = 32, TypePointerInputLen = 19\<rparr>"

definition empty_Ops :: Ops where
  "empty_Ops = \<lparr>data = [], refs = []\<rparr>"

definition sample_InputOp :: InputOp where
  "sample_InputOp =
     \<lparr>Tag = Some (TagId 7), Grab = True, Types = Scroll,
      ScrollBounds = \<lparr>Min_pt = \<lparr>X = - 3, Y = - 4\<rparr>, Max_pt = \<lparr>X = 5, Y = 258\<rparr>\<rparr>\<rparr>"






text \<open>The bytes a call has appended to the buffer \<open>ops\<close>, if it returned.\<close>

definition appended :: "Ops \<Rightarrow> panic + Ops \<Rightarrow> byte list" where
  "appended ops r = (case r of Inl p \<Rightarrow> [] | Inr ops' \<Rightarrow> drop (length (data ops)) (data ops'))"


section \<open>Package headless: data model\<close>

text \<open>
  The GPU context, device, renderer and texture are external objects reached through
  interfaces. Each is a handle; what the backend answers to a call is a parameter of the
  model (record \<open>backend\<close>), and every call on an external object is logged as an event,
  in order. A Go \<^verbatim>\<open>error\<close> is \<^verbatim>\<open>nil\<close> or a value: \<^typ>\<open>'a option\<close>. A Go function
  returning a value and an error is a sum, \<^term>\<open>Inl\<close> when the error is not \<^verbatim>\<open>nil\<close>.
\<close>

datatype error = ErrorsNew string | BackendError nat

datatype context_t = Context nat
datatype API = API nat
datatype Device = Device nat
datatype Texture = Texture nat
datatype GPU = GPU nat

datatype NRGBA = NRGBA byte byte byte byte

datatype TextureFormat = TextureFormatSRGBA
datatype TextureFilter = FilterNearest
datatype BufferBinding = BufferBindingFramebuffer

text \<open>\<^verbatim>\<open>image.RGBA\<close>\<close>

record RGBA =
  Pix :: "byte list"
  Stride :: int
  Rect_b :: Rectangle

datatype strategy_slot = Primary | Fallback

datatype event =
  Ev_newContext strategy_slot
  | Ev_MakeCurrent context_t
  | Ev_ReleaseCurrent context_t
  | Ev_Release_context context_t
  | Ev_NewDevice API
  | Ev_NewTexture Device TextureFormat int int TextureFilter TextureFilter BufferBinding
  | Ev_gpu_New API
  | Ev_Release_Texture Texture
  | Ev_Release_GPU GPU
  | Ev_Release_Device Device
  | Ev_Clear GPU NRGBA
  | Ev_Frame GPU Ops "Texture option" Point
  | Ev_DownloadImage Device Texture Rectangle

text \<open>The events that release an owned resource.\<close>

fun is_release :: "event \<Rightarrow> bool" where
  "is_release (Ev_Release_context c) = True"
| "is_release (Ev_Release_Texture t) = True"
| "is_release (Ev_Release_GPU g) = True"
| "is_release (Ev_Release_Device d) = True"
| "is_release e = False"

type_synonym strategy = "event list \<Rightarrow> error + context_t"

text \<open>
  The answers of the environment. Each takes the events so far, so that the answer to a
  call may depend on everything done before. \<open>newContextPrimary\<close> and
  \<open>newContextFallback\<close> are the two package variables, \<^term>\<open>None\<close> when \<^verbatim>\<open>nil\<close>.
  \<open>DownloadImage\<close> is the answer of the readback of a texture on a device, and \<open>maxInt\<close>
  is the largest value of Go's \<^verbatim>\<open>int\<close> on the platform.
\<close>

record backend =
  newContextPrimary :: "strategy option"
  newContextFallback :: "strategy option"
  ctx_API :: "context_t \<Rightarrow> API"
  MakeCurrent :: "event list \<Rightarrow> context_t \<Rightarrow> error option"
  NewDevice :: "event list \<Rightarrow> API \<Rightarrow> error + Device"
  NewTexture :: "event list \<Rightarrow> Device \<Rightarrow> int \<Rightarrow> int \<Rightarrow> error + Texture"
  gpu_New :: "event list \<Rightarrow> API \<Rightarrow> error + GPU"
  gpu_Frame :: "event list \<Rightarrow> GPU \<Rightarrow> Ops \<Rightarrow> Texture option \<Rightarrow> Point \<Rightarrow> error option"
  DownloadImage :: "event list \<Rightarrow> Device \<Rightarrow> Texture \<Rightarrow> Rectangle \<Rightarrow> error + RGBA"
  maxInt :: int

record Window =
  size_w :: Point
  ctx :: "context_t option"
  dev :: "Device option"
  gpu :: "GPU option"
  fboTex :: "Texture option"

section \<open>Package headless: operations\<close>

text \<open>
  \<^verbatim>\<open>func newContext() (context, error)\<close>: the loop over
  \<^verbatim>\<open>[]func() (context, error){newContextPrimary, newContextFallback}\<close> with the
  variable \<^verbatim>\<open>firstErr\<close>.
\<close>

fun newContext_loop ::
  "(strategy_slot \<times> strategy option) list \<Rightarrow> error option \<Rightarrow> event list
    \<Rightarrow> (error + context_t) \<times> event list" where
  "newContext_loop [] firstErr tr =
     (case firstErr of
        Some e \<Rightarrow> (Inl e, tr)
      | None \<Rightarrow> (Inl (ErrorsNew ''x11: no available GPU backends''), tr))"
| "newContext_loop ((slot, None) # funcs) firstErr tr = newContext_loop funcs firstErr tr"
| "newContext_loop ((slot, Some f) # funcs) firstErr tr =
     (case f tr of
        Inl err \<Rightarrow>
          newContext_loop funcs (case firstErr of None \<Rightarrow> Some err | Some e \<Rightarrow> Some e)
            (tr @ [Ev_newContext slot])
      | Inr c \<Rightarrow> (Inr c, tr @ [Ev_newContext slot]))"

definition newContext :: "backend \<Rightarrow> event list \<Rightarrow> (error + context_t) \<times> event list" where
  "newContext B tr =
     newContext_loop [(Primary, newContextPrimary B), (Fallback, newContextFallback B)] None tr"

text \<open>
  \<^verbatim>\<open>func contextDo(ctx context, f func() error) error\<close>. The goroutine and the channel
  make the call synchronous: the caller blocks until the worker has sent its result. A
  method call on a \<^verbatim>\<open>nil\<close> interface panics, and a panic in the worker ends the
  program. The closure \<open>f\<close> works on the variables it captured (\<open>'s\<close>) and on the events.
\<close>

definition contextDo ::
  "backend \<Rightarrow> context_t option
    \<Rightarrow> ('s \<times> event list \<Rightarrow> (panic + error option) \<times> 's \<times> event list)
    \<Rightarrow> 's \<times> event list \<Rightarrow> (panic + error option) \<times> 's \<times> event list" where
  "contextDo B cx f st =
     (case st of (s, tr) \<Rightarrow>
        (case cx of
           None \<Rightarrow> (Inl Panic_NilDereference, s, tr)
         | Some c \<Rightarrow>
             (case MakeCurrent B tr c of
                Some err \<Rightarrow> (Inr (Some err), s, tr @ [Ev_MakeCurrent c])
              | None \<Rightarrow>
                  (case f (s, tr @ [Ev_MakeCurrent c]) of
                     (Inl p, s', tr') \<Rightarrow> (Inl p, s', tr')
                   | (Inr err, s', tr') \<Rightarrow> (Inr err, s', tr' @ [Ev_ReleaseCurrent c])))))"

text \<open>The closure passed to \<^verbatim>\<open>contextDo\<close> in \<^verbatim>\<open>NewWindow\<close>.\<close>

definition NewWindow_body ::
  "backend \<Rightarrow> context_t \<Rightarrow> int \<Rightarrow> int \<Rightarrow> Window \<times> event list
    \<Rightarrow> (panic + error option) \<times> Window \<times> event list" where
  "NewWindow_body B c width height st =
     (case st of (w, tr) \<Rightarrow>
        (let api = ctx_API B c in
         case NewDevice B tr api of
           Inl err \<Rightarrow> (Inr (Some err), w, tr @ [Ev_NewDevice api])
         | Inr d \<Rightarrow>
             (let tr1 = tr @ [Ev_NewDevice api];
                  tr2 = tr1 @ [Ev_NewTexture d TextureFormatSRGBA width height
                                 FilterNearest FilterNearest BufferBindingFramebuffer]
              in case NewTexture B tr1 d width height of
                   Inl err \<Rightarrow> (Inr None, w, tr2)
                 | Inr t \<Rightarrow>
                     (case gpu_New B tr2 api of
                        Inl err \<Rightarrow>
                          (Inr (Some err), w,
                           tr2 @ [Ev_gpu_New api, Ev_Release_Texture t, Ev_Release_Device d])
                      | Inr gp \<Rightarrow>
                          (Inr None, w\<lparr>fboTex := Some t, gpu := Some gp, dev := Some d\<rparr>,
                           tr2 @ [Ev_gpu_New api])))))"

text \<open>\<^verbatim>\<open>func NewWindow(width, height int) (*Window, error)\<close>\<close>

definition NewWindow ::
  "backend \<Rightarrow> int \<Rightarrow> int \<Rightarrow> event list
    \<Rightarrow> (panic + Window option \<times> error option) \<times> event list" where
  "NewWindow B width height tr =
     (case newContext B tr of
        (Inl err, tr1) \<Rightarrow> (Inr (None, Some err), tr1)
      | (Inr c, tr1) \<Rightarrow>
          (let w = \<lparr>size_w = \<lparr>X = width, Y = height\<rparr>, ctx = Some c, dev = None,
                    gpu = None, fboTex = None\<rparr>
           in case contextDo B (Some c) (NewWindow_body B c width height) (w, tr1) of
                (Inl p, w', tr2) \<Rightarrow> (Inl p, tr2)
              | (Inr (Some err), w', tr2) \<Rightarrow>
                  (Inr (None, Some err), tr2 @ [Ev_Release_context c])
              | (Inr None, w', tr2) \<Rightarrow> (Inr (Some w', None), tr2)))"

text \<open>The closure passed to \<^verbatim>\<open>contextDo\<close> in \<^verbatim>\<open>Release\<close>.\<close>

definition Release_body ::
  "Window \<times> event list \<Rightarrow> (panic + error option) \<times> Window \<times> event list" where
  "Release_body st =
     (case st of (w, tr) \<Rightarrow>
        (let (w, tr) = (case fboTex w of
                          Some t \<Rightarrow> (w\<lparr>fboTex := None\<rparr>, tr @ [Ev_Release_Texture t])
                        | None \<Rightarrow> (w, tr));
             (w, tr) = (case gpu w of
                          Some g \<Rightarrow> (w\<lparr>gpu := None\<rparr>, tr @ [Ev_Release_GPU g])
                        | None \<Rightarrow> (w, tr));
             (w, tr) = (case dev w of
                          Some d \<Rightarrow> (w\<lparr>dev := None\<rparr>, tr @ [Ev_Release_Device d])
                        | None \<Rightarrow> (w, tr))
         in (Inr None, w, tr)))"

text \<open>\<^verbatim>\<open>func (w *Window) Release()\<close>: the result of \<^verbatim>\<open>contextDo\<close> is dropped.\<close>

definition Window_Release ::
  "backend \<Rightarrow> Window \<times> event list \<Rightarrow> (panic + unit) \<times> Window \<times> event list" where
  "Window_Release B st =
     (case contextDo B (ctx (fst st)) Release_body st of
        (Inl p, w, tr) \<Rightarrow> (Inl p, w, tr)
      | (Inr err, w, tr) \<Rightarrow>
          (case ctx w of
             Some c \<Rightarrow> (Inr (), w\<lparr>ctx := None\<rparr>, tr @ [Ev_Release_context c])
           | None \<Rightarrow> (Inr (), w, tr)))"

text \<open>
  \<^verbatim>\<open>func (w *Window) Frame(frame *op.Ops) error\<close>. \<^verbatim>\<open>color.NRGBA{}\<close> is the zero
  value: transparent black.
\<close>

definition Frame_body ::
  "backend \<Rightarrow> Ops \<Rightarrow> Window \<times> event list
    \<Rightarrow> (panic + error option) \<times> Window \<times> event list" where
  "Frame_body B frame st =
     (case st of (w, tr) \<Rightarrow>
        (case gpu w of
           None \<Rightarrow> (Inl Panic_NilDereference, w, tr)
         | Some g \<Rightarrow>
             (let tr1 = tr @ [Ev_Clear g (NRGBA 0 0 0 0)]
              in (Inr (gpu_Frame B tr1 g frame (fboTex w) (size_w w)), w,
                  tr1 @ [Ev_Frame g frame (fboTex w) (size_w w)]))))"

definition Window_Frame ::
  "backend \<Rightarrow> Ops \<Rightarrow> Window \<times> event list
    \<Rightarrow> (panic + error option) \<times> Window \<times> event list" where
  "Window_Frame B frame st = contextDo B (ctx (fst st)) (Frame_body B frame) st"

text \<open>
  Modelled from the spec: \<^verbatim>\<open>driver.DownloadImage\<close> of package \<^verbatim>\<open>gpu/internal/driver\<close>
  is outside the verified sources. By the spec it reads the region of the texture back
  into a host-addressable bitmap and fails when the readback fails. The bitmap is
  allocated for the region before the readback: \<^verbatim>\<open>image.NewRGBA\<close> of the Go library
  panics when the width or the height of the region is negative or when the length of
  the pixel buffer, four bytes a pixel, does not fit an \<^verbatim>\<open>int\<close>. The readback is a
  method call on the texture and the device, so a \<^verbatim>\<open>nil\<close> texture or device panics.
  A panic happens before anything is asked of the backend.
\<close>

definition driver_DownloadImage ::
  "backend \<Rightarrow> event list \<Rightarrow> Device option \<Rightarrow> Texture option \<Rightarrow> Rectangle
    \<Rightarrow> (panic + error + RGBA) \<times> event list" where
  "driver_DownloadImage B tr dv tx r =
     (let dx = X (Max_pt r) - X (Min_pt r); dy = Y (Max_pt r) - Y (Min_pt r)
      in if dx < 0 \<or> dy < 0 \<or> maxInt B < 4 * dx * dy
         then (Inl Panic_HugeOrNegativeDimensions, tr)
         else
           (case tx of
              None \<Rightarrow> (Inl Panic_NilDereference, tr)
            | Some t \<Rightarrow>
                (case dv of
                   None \<Rightarrow> (Inl Panic_NilDereference, tr)
                 | Some d \<Rightarrow> (Inr (DownloadImage B tr d t r), tr @ [Ev_DownloadImage d t r]))))"

text \<open>
  \<^verbatim>\<open>func (w *Window) Screenshot() (*image.RGBA, error)\<close>. The closure captures the
  window and the variable \<^verbatim>\<open>img\<close>; \<^verbatim>\<open>image.Rectangle{Max: w.size}\<close> has the zero
  point as \<^verbatim>\<open>Min\<close>.
\<close>

definition Screenshot_body ::
  "backend \<Rightarrow> (Window \<times> RGBA option) \<times> event list
    \<Rightarrow> (panic + error option) \<times> (Window \<times> RGBA option) \<times> event list" where
  "Screenshot_body B st =
     (case st of ((w, img), tr) \<Rightarrow>
        (case driver_DownloadImage B tr (dev w) (fboTex w)
                \<lparr>Min_pt = \<lparr>X = 0, Y = 0\<rparr>, Max_pt = size_w w\<rparr> of
           (Inl p, tr1) \<Rightarrow> (Inl p, (w, img), tr1)
         | (Inr (Inl err), tr1) \<Rightarrow> (Inr (Some err), (w, None), tr1)
         | (Inr (Inr im), tr1) \<Rightarrow> (Inr None, (w, Some im), tr1)))"

definition Window_Screenshot ::
  "backend \<Rightarrow> Window \<times> event list
    \<Rightarrow> (panic + RGBA option \<times> error option) \<times> Window \<times> event list" where
  "Window_Screenshot B st =
     (case st of (w, tr) \<Rightarrow>
        (case contextDo B (ctx w) (Screenshot_body B) ((w, None), tr) of
           (Inl p, (w', img), tr') \<Rightarrow> (Inl p, w', tr')
         | (Inr (Some err), (w', img), tr') \<Rightarrow> (Inr (None, Some err), w', tr')
         | (Inr None, (w', img), tr') \<Rightarrow> (Inr (img, None), w', tr')))"

section \<open>Sample environments and stated behaviours\<close>

text \<open>
  A backend on which every call succeeds, one whose texture creation fails, and one whose
  context is lost after its first use (it can be made current until it has been released
  from the worker once, and never again); the window that \<open>NewWindow\<close> builds on the
  first and on the last, and the events of that construction.
\<close>

definition sample_backend :: backend where
  "sample_backend =
     \<lparr>newContextPrimary = Some (\<lambda>tr. Inr (Context 1)),
      newContextFallback = None,
      ctx_API = (\<lambda>c. API 3),
      MakeCurrent = (\<lambda>tr c. None),
      NewDevice = (\<lambda>tr a. Inr (Device 1)),
      NewTexture = (\<lambda>tr d width height. Inr (Texture 1)),
      gpu_New = (\<lambda>tr a. Inr (GPU 1)),
      gpu_Frame = (\<lambda>tr g frame t sz. None),
      DownloadImage = (\<lambda>tr d t r. Inr \<lparr>Pix = [], Stride = 0, Rect_b = r\<rparr>),
      maxInt = 9223372036854775807\<rparr>"

definition texfail_backend :: backend where
  "texfail_backend =
     sample_backend\<lparr>NewTexture := (\<lambda>tr d width height. Inl (BackendError 7))\<rparr>"

definition lost_backend :: backend where
  "lost_backend =
     sample_backend\<lparr>MakeCurrent :=
       (\<lambda>tr c. if Ev_ReleaseCurrent c \<in> set tr then Some (BackendError 5) else None)\<rparr>"

definition built_trace :: "event list" where
  "built_trace =
     [Ev_newContext Primary, Ev_MakeCurrent (Context 1), Ev_NewDevice (API 3),
      Ev_NewTexture (Device 1) TextureFormatSRGBA 4 4 FilterNearest FilterNearest
        BufferBindingFramebuffer,
      Ev_gpu_New (API 3), Ev_ReleaseCurrent (Context 1)]"

definition sample_Window :: Window where
  "sample_Window =
     \<lparr>size_w = \<lparr>X = 4, Y = 4\<rparr>, ctx = Some (Context 1), dev = Some (Device 1),
      gpu = Some (GPU 1), fboTex = Some (Texture 1)\<rparr>"

definition released_Window :: Window where
  "released_Window =
     \<lparr>size_w = \<lparr>X = 4, Y = 4\<rparr>, ctx = None, dev = None, gpu = None, fboTex = None\<rparr>"

text \<open>
  A clear to transparent black directly followed by the submission of the frame, somewhere
  in a list of events.
\<close>

fun clear_then_frame :: "GPU \<Rightarrow> Ops \<Rightarrow> Texture option \<Rightarrow> Point \<Rightarrow> event list \<Rightarrow> bool" where
  "clear_then_frame g frame t sz (e1 # e2 # es) =
     ((e1 = Ev_Clear g (NRGBA 0 0 0 0) \<and> e2 = Ev_Frame g frame t sz)
      \<or> clear_then_frame g frame t sz (e2 # es))"
| "clear_then_frame g frame t sz es = False"

text \<open>
  What the spec says of \<open>Frame\<close>, read on a run: the events of the call hold the clear and
  then the submission to the window's renderer, with the window's texture and size.
\<close>

definition Frame_as_stated :: "backend \<Rightarrow> Ops \<Rightarrow> Window \<times> event list \<Rightarrow> bool" where
  "Frame_as_stated B frame st =
     (case gpu (fst st) of
        None \<Rightarrow> False
      | Some g \<Rightarrow>
          clear_then_frame g frame (fboTex (fst st)) (size_w (fst st))
            (drop (length (snd st)) (snd (snd (Window_Frame B frame st)))))"

text \<open>
  What the spec says of \<open>Screenshot\<close>, read on a run: the call returns the bitmap of the
  readback of the full region, and it returns an error exactly when the readback does,
  namely that error.
\<close>

definition Screenshot_as_stated :: "backend \<Rightarrow> Window \<times> event list \<Rightarrow> bool" where
  "Screenshot_as_stated B st =
     (case ctx (fst st) of
        None \<Rightarrow> False
      | Some c \<Rightarrow>
          (case fst (driver_DownloadImage B (snd st @ [Ev_MakeCurrent c]) (dev (fst st))
                       (fboTex (fst st))
                       \<lparr>Min_pt = \<lparr>X = 0, Y = 0\<rparr>, Max_pt = size_w (fst st)\<rparr>) of
             Inl p \<Rightarrow> False
           | Inr (Inr im) \<Rightarrow> fst (Window_Screenshot B st) = Inr (Some im, None)
           | Inr (Inl err) \<Rightarrow> fst (Window_Screenshot B st) = Inr (None, Some err)))"

section \<open>Properties of package pointer\<close>

lemma and_eq_iff_bits:
  fixes b m :: "'a::len word"
  shows "(b AND m = m) = (\<forall>n. bit m n \<longrightarrow> bit b n)"
proof
  assume h: "b AND m = m"
  show "\<forall>n. bit m n \<longrightarrow> bit b n"
  proof (intro allI impI)
    fix n assume "bit m n"
    then have "bit (b AND m) n" using h by simp
    then show "bit b n" by (simp add: bit_and_iff)
  qed
next
  assume h: "\<forall>n. bit m n \<longrightarrow> bit b n"
  show "b AND m = m"
    by (rule bit_eqI) (use h in \<open>auto simp add: bit_and_iff\<close>)
qed

text \<open>
  Claim C10. \<^verbatim>\<open>b.Contain(buttons)\<close> is true exactly when every bit set in
  \<^verbatim>\<open>buttons\<close> is set in \<^verbatim>\<open>b\<close>; the empty set is contained in every set, and every
  set contains itself.
\<close>

theorem Buttons_Contain_iff:
  "(Buttons_Contain b buttons = (\<forall>n. bit buttons n \<longrightarrow> bit b n))
   \<and> Buttons_Contain b 0
   \<and> Buttons_Contain b b"
  unfolding Buttons_Contain_def
  using and_eq_iff_bits [of b buttons] by simp

theorem Buttons_Contain_iff_witness:
  "Buttons_Contain (ButtonPrimary OR ButtonSecondary OR ButtonTertiary)
     (ButtonPrimary OR ButtonTertiary)
   \<and> \<not> Buttons_Contain ButtonSecondary ButtonPrimary"
proof -
  have h: "\<forall>n. bit (ButtonPrimary OR ButtonTertiary) n
            \<longrightarrow> bit (ButtonPrimary OR ButtonSecondary OR ButtonTertiary) n"
    by (simp add: bit_or_iff)
  have a: "Buttons_Contain (ButtonPrimary OR ButtonSecondary OR ButtonTertiary)
     (ButtonPrimary OR ButtonTertiary)"
    using h Buttons_Contain_iff [of "ButtonPrimary OR ButtonSecondary OR ButtonTertiary"
        "ButtonPrimary OR ButtonTertiary"]
    by simp
  have b: "bit ButtonPrimary (0::nat)" "\<not> bit ButtonSecondary (0::nat)"
    by (simp_all add: ButtonPrimary_def ButtonSecondary_def)
  have "\<not> (\<forall>n. bit ButtonPrimary n \<longrightarrow> bit ButtonSecondary n)"
    using b by blast
  then have c: "\<not> Buttons_Contain ButtonSecondary ButtonPrimary"
    using Buttons_Contain_iff [of ButtonSecondary ButtonPrimary] by simp
  show ?thesis using a c by simp
qed

subsection \<open>Encoding of records\<close>

lemma seq_Inr [simp]: "seq (Inr a) f = f a"
  by (simp add: seq_def)

lemma seq_Inl [simp]: "seq (Inl p) f = Inl p"
  by (simp add: seq_def)

lemma byte_of_word_of_int:
  assumes "m \<le> 24"
  shows "(ucast (drop_bit m (word_of_int x :: uint32)) :: byte)
         = word_of_int (x div 2 ^ m mod 256)"
proof -
  have e: "x div 2 ^ m mod 256 = take_bit 8 (drop_bit m x)"
    by (simp add: take_bit_eq_mod drop_bit_eq_div)
  show ?thesis
    unfolding e
  proof (rule bit_eqI)
    fix n assume "possible_bit TYPE(byte) n"
    then have n: "n < 8" by (simp add: possible_bit_def)
    then have "m + n < 32" using assms by simp
    then show "bit (ucast (drop_bit m (word_of_int x :: uint32)) :: byte) n =
        bit (word_of_int (take_bit 8 (drop_bit m x)) :: byte) n"
      using n
      by (simp add: bit_ucast_iff bit_drop_bit_eq bit_word_of_int_iff bit_take_bit_iff
          add.commute)
  qed
qed

lemma le32_bytes:
  "[ucast (word_of_int x :: uint32), ucast (drop_bit 8 (word_of_int x :: uint32)),
    ucast (drop_bit 16 (word_of_int x :: uint32)), ucast (drop_bit 24 (word_of_int x :: uint32))]
   = le32 x"
  using byte_of_word_of_int [of 0 x] byte_of_word_of_int [of 8 x]
    byte_of_word_of_int [of 16 x] byte_of_word_of_int [of 24 x]
  by (simp add: le32_def)

lemma length_le32 [simp]: "length (le32 x) = 4"
  by (simp add: le32_def)

lemma store_append:
  assumes "i < n" "length r = n"
  shows "store \<lparr>start = length xs, extent = n\<rparr> i v (ops\<lparr>data := xs @ r\<rparr>)
         = Inr (ops\<lparr>data := xs @ r[i := v]\<rparr>)"
  using assms by (simp add: store_def list_update_append)

lemma update4:
  assumes "i + 4 \<le> length r"
  shows "r[i := a, Suc i := b, Suc (Suc i) := c, i + 3 := d]
           = take i r @ [a, b, c, d] @ drop (i + 4) r"
  using assms
  apply (auto simp add: list_eq_iff_nth_eq nth_append nth_list_update min_def
        nth_Cons split: nat.splits)
  subgoal for k j by (rule arg_cong [where f = "(!) r"]) arith
  done

lemma put_int_append:
  assumes "i + 4 \<le> n" "length r = n"
  shows "put_int \<lparr>start = length xs, extent = n\<rparr> i x (ops\<lparr>data := xs @ r\<rparr>)
         = Inr (ops\<lparr>data := xs @ take i r @ le32 x @ drop (i + 4) r\<rparr>)"
proof -
  have s: "slice_from \<lparr>start = length xs, extent = n\<rparr> i
           = Inr \<lparr>start = length xs + i, extent = n - i\<rparr>"
    using assms by (simp add: slice_from_def)
  have e: "3 < n - i" using assms by arith
  have "PutUint32 \<lparr>start = length xs + i, extent = n - i\<rparr> (word_of_int x)
          (ops\<lparr>data := xs @ r\<rparr>)
        = Inr (ops\<lparr>data := xs @ r[i := ucast (word_of_int x :: uint32),
                Suc i := ucast (drop_bit 8 (word_of_int x :: uint32)),
                Suc (Suc i) := ucast (drop_bit 16 (word_of_int x :: uint32)),
                i + 3 := ucast (drop_bit 24 (word_of_int x :: uint32))]\<rparr>)"
    using e by (simp add: PutUint32_def store_def list_update_append add.assoc)
  also have "r[i := ucast (word_of_int x :: uint32),
                Suc i := ucast (drop_bit 8 (word_of_int x :: uint32)),
                Suc (Suc i) := ucast (drop_bit 16 (word_of_int x :: uint32)),
                i + 3 := ucast (drop_bit 24 (word_of_int x :: uint32))]
         = take i r @ le32 x @ drop (i + 4) r"
    using assms by (simp only: update4 le32_bytes)
  finally have "PutUint32 \<lparr>start = length xs + i, extent = n - i\<rparr> (word_of_int x)
       (ops\<lparr>data := xs @ r\<rparr>)
        = Inr (ops\<lparr>data := xs @ take i r @ le32 x @ drop (i + 4) r\<rparr>)" .
  then show ?thesis
    by (simp add: put_int_def s)
qed

lemma zeros18: "replicate 18 (0::byte) = [0,0,0,0,0,0,0,0,0,0,0,0,0,0,0,0,0,0]"
  by (simp add: numeral_eq_Suc)

lemma zeros19: "replicate 19 (0::byte) = [0,0,0,0,0,0,0,0,0,0,0,0,0,0,0,0,0,0,0]"
  by (simp add: numeral_eq_Suc)


lemma AreaOp_add_layout:
  assumes "18 \<le> TypeAreaLen K"
  shows "AreaOp_add K a ops push =
     Inr (ops\<lparr>data := data ops @ [TypeArea K, kind a]
            @ le32 (X (Min_pt (rect a))) @ le32 (Y (Min_pt (rect a)))
            @ le32 (X (Max_pt (rect a))) @ le32 (Y (Max_pt (rect a)))
            @ replicate (TypeAreaLen K - 18) 0\<rparr>)"
proof -
  define n where "n = TypeAreaLen K"
  define d where "d = \<lparr>start = length (data ops), extent = n\<rparr>"
  define r0 where "r0 = replicate n (0::byte)"
  define r1 where "r1 = r0[0 := TypeArea K]"
  define r2 where "r2 = r1[1 := kind a]"
  define r3 where "r3 = take 2 r2 @ le32 (X (Min_pt (rect a))) @ drop (2 + 4) r2"
  define r4 where "r4 = take 6 r3 @ le32 (Y (Min_pt (rect a))) @ drop (6 + 4) r3"
  define r5 where "r5 = take 10 r4 @ le32 (X (Max_pt (rect a))) @ drop (10 + 4) r4"
  define r6 where "r6 = take 14 r5 @ le32 (Y (Max_pt (rect a))) @ drop (14 + 4) r5"
  have n: "18 \<le> n" using assms by (simp add: n_def)
  have l0: "length r0 = n" by (simp add: r0_def)
  have l1: "length r1 = n" by (simp add: r1_def l0)
  have l2: "length r2 = n" by (simp add: r2_def l1)
  have l3: "length r3 = n" using n by (simp add: r3_def l2)
  have l4: "length r4 = n" using n by (simp add: r4_def l3)
  have l5: "length r5 = n" using n by (simp add: r5_def l4)
  have w: "Write ops n = (ops\<lparr>data := data ops @ r0\<rparr>, d)"
    by (simp add: Write_def r0_def d_def)
  have s1: "store d 0 (TypeArea K) (ops\<lparr>data := data ops @ r0\<rparr>)
            = Inr (ops\<lparr>data := data ops @ r1\<rparr>)"
    unfolding r1_def d_def using n l0 by (intro store_append) simp_all
  have s2: "store d 1 (kind a) (ops\<lparr>data := data ops @ r1\<rparr>)
            = Inr (ops\<lparr>data := data ops @ r2\<rparr>)"
    unfolding r2_def d_def using n l1 by (intro store_append) simp_all
  have s3: "put_int d 2 (X (Min_pt (rect a))) (ops\<lparr>data := data ops @ r2\<rparr>)
            = Inr (ops\<lparr>data := data ops @ r3\<rparr>)"
    unfolding r3_def d_def using n l2 by (intro put_int_append) simp_all
  have s4: "put_int d 6 (Y (Min_pt (rect a))) (ops\<lparr>data := data ops @ r3\<rparr>)
            = Inr (ops\<lparr>data := data ops @ r4\<rparr>)"
    unfolding r4_def d_def using n l3 by (intro put_int_append) simp_all
  have s5: "put_int d 10 (X (Max_pt (rect a))) (ops\<lparr>data := data ops @ r4\<rparr>)
            = Inr (ops\<lparr>data := data ops @ r5\<rparr>)"
    unfolding r5_def d_def using n l4 by (intro put_int_append) simp_all
  have s6: "put_int d 14 (Y (Max_pt (rect a))) (ops\<lparr>data := data ops @ r5\<rparr>)
            = Inr (ops\<lparr>data := data ops @ r6\<rparr>)"
    unfolding r6_def d_def using n l5 by (intro put_int_append) simp_all
  have run: "AreaOp_add K a ops push = Inr (ops\<lparr>data := data ops @ r6\<rparr>)"
    unfolding AreaOp_add_def n_def [symmetric] w
    by (simp add: s1 s2 [unfolded One_nat_def] s3 s4 s5 s6)
  obtain m where m: "n = 18 + m"
    using n by (metis le_Suc_ex)
  have "r0 = [0,0,0,0,0,0,0,0,0,0,0,0,0,0,0,0,0,0] @ replicate m 0"
    by (simp add: r0_def m replicate_add zeros18)
  then have "r6 = [TypeArea K, kind a]
            @ le32 (X (Min_pt (rect a))) @ le32 (Y (Min_pt (rect a)))
            @ le32 (X (Max_pt (rect a))) @ le32 (Y (Max_pt (rect a)))
            @ replicate m 0"
    by (simp add: r6_def r5_def r4_def r3_def r2_def r1_def le32_def)
  moreover have "TypeAreaLen K - 18 = m" using m by (simp add: n_def)
  ultimately show ?thesis using run by simp
qed

lemma InputOp_Add_layout:
  assumes len: "19 \<le> TypePointerInputLen K"
    and tag: "Tag h = Some t"
    and ok: "X (Min_pt (ScrollBounds h)) \<le> 0" "0 \<le> X (Max_pt (ScrollBounds h))"
      "Y (Min_pt (ScrollBounds h)) \<le> 0" "0 \<le> Y (Max_pt (ScrollBounds h))"
  shows "InputOp_Add K h ops =
     Inr (ops\<lparr>data := data ops @ [TypePointerInput K, if Grab h then 1 else 0, Types h]
            @ le32 (X (Min_pt (ScrollBounds h))) @ le32 (Y (Min_pt (ScrollBounds h)))
            @ le32 (X (Max_pt (ScrollBounds h))) @ le32 (Y (Max_pt (ScrollBounds h)))
            @ replicate (TypePointerInputLen K - 19) 0,
          refs := refs ops @ [RefTag t]\<rparr>)"
proof -
  define n where "n = TypePointerInputLen K"
  define b where "b = ScrollBounds h"
  define base where "base = ops\<lparr>refs := refs ops @ [RefTag t]\<rparr>"
  define d where "d = \<lparr>start = length (data ops), extent = n\<rparr>"
  define r0 where "r0 = replicate n (0::byte)"
  define r1 where "r1 = r0[0 := TypePointerInput K]"
  define r2 where "r2 = (if Grab h then r1[1 := 1] else r1)"
  define r3 where "r3 = r2[2 := Types h]"
  define r4 where "r4 = take 3 r3 @ le32 (X (Min_pt b)) @ drop (3 + 4) r3"
  define r5 where "r5 = take 7 r4 @ le32 (Y (Min_pt b)) @ drop (7 + 4) r4"
  define r6 where "r6 = take 11 r5 @ le32 (X (Max_pt b)) @ drop (11 + 4) r5"
  define r7 where "r7 = take 15 r6 @ le32 (Y (Max_pt b)) @ drop (15 + 4) r6"
  have n: "19 \<le> n" using len by (simp add: n_def)
  have l0: "length r0 = n" by (simp add: r0_def)
  have l1: "length r1 = n" by (simp add: r1_def l0)
  have l2: "length r2 = n" by (simp add: r2_def l1)
  have l3: "length r3 = n" by (simp add: r3_def l2)
  have l4: "length r4 = n" using n by (simp add: r4_def l3)
  have l5: "length r5 = n" using n by (simp add: r5_def l4)
  have l6: "length r6 = n" using n by (simp add: r6_def l5)
  have w: "Write1 ops n (RefTag t) = (base\<lparr>data := data ops @ r0\<rparr>, d)"
    by (simp add: Write1_def r0_def base_def d_def)
  have s1: "store d 0 (TypePointerInput K) (base\<lparr>data := data ops @ r0\<rparr>)
            = Inr (base\<lparr>data := data ops @ r1\<rparr>)"
    unfolding r1_def d_def using n l0 by (intro store_append) simp_all
  have s2: "store d (Suc 0) 1 (base\<lparr>data := data ops @ r1\<rparr>)
            = Inr (base\<lparr>data := data ops @ r2\<rparr>)" if "Grab h"
  proof -
    have "store d 1 1 (base\<lparr>data := data ops @ r1\<rparr>)
          = Inr (base\<lparr>data := data ops @ r1[1 := 1]\<rparr>)"
      unfolding d_def using n l1 by (intro store_append) simp_all
    then show ?thesis using that by (simp add: r2_def)
  qed
  have s2': "r1 = r2" if "\<not> Grab h"
    using that by (simp add: r2_def)
  have s3: "store d 2 (Types h) (base\<lparr>data := data ops @ r2\<rparr>)
            = Inr (base\<lparr>data := data ops @ r3\<rparr>)"
    unfolding r3_def d_def using n l2 by (intro store_append) simp_all
  have s4: "put_int d 3 (X (Min_pt b)) (base\<lparr>data := data ops @ r3\<rparr>)
            = Inr (base\<lparr>data := data ops @ r4\<rparr>)"
    unfolding r4_def d_def using n l3 by (intro put_int_append) simp_all
  have s5: "put_int d 7 (Y (Min_pt b)) (base\<lparr>data := data ops @ r4\<rparr>)
            = Inr (base\<lparr>data := data ops @ r5\<rparr>)"
    unfolding r5_def d_def using n l4 by (intro put_int_append) simp_all
  have s6: "put_int d 11 (X (Max_pt b)) (base\<lparr>data := data ops @ r5\<rparr>)
            = Inr (base\<lparr>data := data ops @ r6\<rparr>)"
    unfolding r6_def d_def using n l5 by (intro put_int_append) simp_all
  have s7: "put_int d 15 (Y (Max_pt b)) (base\<lparr>data := data ops @ r6\<rparr>)
            = Inr (base\<lparr>data := data ops @ r7\<rparr>)"
    unfolding r7_def d_def using n l6 by (intro put_int_append) simp_all
  have run: "InputOp_Add K h ops = Inr (base\<lparr>data := data ops @ r7\<rparr>)"
    unfolding InputOp_Add_def n_def [symmetric] b_def [symmetric]
    using ok tag
    by (cases "Grab h")
      (simp_all add: Let_def b_def [symmetric] w s1 s2 s2' s3 s4 s5 s6 s7)
  obtain m where m: "n = 19 + m"
    using n by (metis le_Suc_ex)
  have "r0 = [0,0,0,0,0,0,0,0,0,0,0,0,0,0,0,0,0,0,0] @ replicate m 0"
    by (simp add: r0_def m replicate_add zeros19)
  then have "r7 = [TypePointerInput K, if Grab h then 1 else 0, Types h]
            @ le32 (X (Min_pt b)) @ le32 (Y (Min_pt b))
            @ le32 (X (Max_pt b)) @ le32 (Y (Max_pt b))
            @ replicate m 0"
    by (simp add: r7_def r6_def r5_def r4_def r3_def r2_def r1_def le32_def)
  moreover have "TypePointerInputLen K - 19 = m" using m by (simp add: n_def)
  ultimately show ?thesis using run by (simp add: base_def b_def)
qed

lemma CursorNameOp_Add_layout:
  assumes "1 \<le> TypeCursorLen K"
  shows "CursorNameOp_Add K c ops =
     Inr (ops\<lparr>data := data ops @ TypeCursor K # replicate (TypeCursorLen K - 1) 0,
          refs := refs ops @ [RefCursorName (Name c)]\<rparr>)"
proof -
  obtain m where m: "TypeCursorLen K = Suc m"
    using assms by (cases "TypeCursorLen K") simp_all
  show ?thesis
    by (simp add: CursorNameOp_Add_def Write1_def store_def m list_update_append)
qed

lemma InputOp_Add_accepts:
  assumes "InputOp_Add K h ops = Inr ops'"
  shows "Tag h \<noteq> None \<and> X (Min_pt (ScrollBounds h)) \<le> 0 \<and> 0 \<le> X (Max_pt (ScrollBounds h))
         \<and> Y (Min_pt (ScrollBounds h)) \<le> 0 \<and> 0 \<le> Y (Max_pt (ScrollBounds h))"
proof (cases "Tag h")
  case None
  then show ?thesis using assms by (simp add: InputOp_Add_def)
next
  case (Some t)
  show ?thesis
  proof (rule ccontr)
    assume "\<not> ?thesis"
    then have "0 < X (Min_pt (ScrollBounds h)) \<or> X (Max_pt (ScrollBounds h)) < 0
         \<or> 0 < Y (Min_pt (ScrollBounds h)) \<or> Y (Max_pt (ScrollBounds h)) < 0"
      using Some by auto
    then have "InputOp_Add K h ops = Inl (Panic_InvalidScrollRange (ScrollBounds h))"
      using Some by (simp add: InputOp_Add_def Let_def)
    then show False using assms by simp
  qed
qed


subsection \<open>Decoding and conversion\<close>











subsection \<open>Claims on the encoder\<close>

text \<open>
  Claim C4. With the record length of \<^verbatim>\<open>internal/ops\<close> large enough for the writes of
  \<open>Add\<close> (19 bytes), \<^verbatim>\<open>InputOp.Add\<close> panics exactly when the tag is \<^verbatim>\<open>nil\<close> or the scroll
  bounds do not straddle the origin on both axes: \<open>Min.X > 0\<close> or \<open>Max.X < 0\<close> or
  \<open>Min.Y > 0\<close> or \<open>Max.Y < 0\<close>. In particular it panics on the bounds
  \<open>{Min: (1,0), Max: (5,5)}\<close>, and it returns on a tag that is not \<^verbatim>\<open>nil\<close> with bounds
  that straddle the origin.
\<close>

theorem InputOp_Add_panics_iff:
  assumes "19 \<le> TypePointerInputLen K"
  shows "(panics (InputOp_Add K h ops) =
           (Tag h = None
            \<or> 0 < X (Min_pt (ScrollBounds h)) \<or> X (Max_pt (ScrollBounds h)) < 0
            \<or> 0 < Y (Min_pt (ScrollBounds h)) \<or> Y (Max_pt (ScrollBounds h)) < 0))
         \<and> panics (InputOp_Add K
               (h\<lparr>ScrollBounds := \<lparr>Min_pt = \<lparr>X = 1, Y = 0\<rparr>, Max_pt = \<lparr>X = 5, Y = 5\<rparr>\<rparr>\<rparr>) ops)"
proof -
  have iff: "panics (InputOp_Add K g ops) =
           (Tag g = None
            \<or> 0 < X (Min_pt (ScrollBounds g)) \<or> X (Max_pt (ScrollBounds g)) < 0
            \<or> 0 < Y (Min_pt (ScrollBounds g)) \<or> Y (Max_pt (ScrollBounds g)) < 0)" for g
  proof (cases "Tag g")
    case None
    then show ?thesis by (simp add: InputOp_Add_def panics_def)
  next
    case (Some t)
    show ?thesis
    proof (cases "0 < X (Min_pt (ScrollBounds g)) \<or> X (Max_pt (ScrollBounds g)) < 0
            \<or> 0 < Y (Min_pt (ScrollBounds g)) \<or> Y (Max_pt (ScrollBounds g)) < 0")
      case True
      then have "InputOp_Add K g ops = Inl (Panic_InvalidScrollRange (ScrollBounds g))"
        using Some by (simp add: InputOp_Add_def Let_def)
      then show ?thesis using True by (simp add: panics_def)
    next
      case False
      then have "\<exists>r. InputOp_Add K g ops = Inr r"
        using InputOp_Add_layout [OF assms Some, of ops] by simp
      then show ?thesis using False Some by (auto simp add: panics_def)
    qed
  qed
  show ?thesis
    using iff [of h]
      iff [of "h\<lparr>ScrollBounds := \<lparr>Min_pt = \<lparr>X = 1, Y = 0\<rparr>, Max_pt = \<lparr>X = 5, Y = 5\<rparr>\<rparr>\<rparr>"]
    by simp
qed

theorem InputOp_Add_panics_iff_witness:
  "19 \<le> TypePointerInputLen sample_consts
   \<and> \<not> panics (InputOp_Add sample_consts sample_InputOp empty_Ops)
   \<and> panics (InputOp_Add sample_consts (sample_InputOp\<lparr>Tag := None\<rparr>) empty_Ops)
   \<and> panics (InputOp_Add sample_consts
        (sample_InputOp\<lparr>ScrollBounds := \<lparr>Min_pt = \<lparr>X = 1, Y = 0\<rparr>, Max_pt = \<lparr>X = 5, Y = 5\<rparr>\<rparr>\<rparr>)
        empty_Ops)"
proof -
  have len: "19 \<le> TypePointerInputLen sample_consts"
    by (simp add: sample_consts_def)
  show ?thesis
    using len InputOp_Add_panics_iff [OF len, of sample_InputOp empty_Ops]
      InputOp_Add_panics_iff [OF len, of "sample_InputOp\<lparr>Tag := None\<rparr>" empty_Ops]
    by (simp add: sample_InputOp_def)
qed




text \<open>
  Claim C6. The record of an \<^verbatim>\<open>AreaOp\<close> is the opcode byte, the kind byte and the four
  coordinates \<open>Min.X\<close>, \<open>Min.Y\<close>, \<open>Max.X\<close>, \<open>Max.Y\<close>, each as four little-endian bytes;
  the record of an \<^verbatim>\<open>InputOp\<close> that \<open>Add\<close> accepts (tag not \<^verbatim>\<open>nil\<close>, bounds that
  straddle the origin) is the opcode byte, the grab byte, the types byte and the four
  coordinates of the scroll bounds in the same order and width. The tag of the
  handler and the name of a cursor go to the reference table, not into the record, so the
  record of an opcode has the length fixed for that opcode, whatever the operation holds.
\<close>

theorem record_layout:
  assumes "18 \<le> TypeAreaLen K" and "19 \<le> TypePointerInputLen K" and "1 \<le> TypeCursorLen K"
    and "Tag h = Some t"
    and "X (Min_pt (ScrollBounds h)) \<le> 0" and "0 \<le> X (Max_pt (ScrollBounds h))"
    and "Y (Min_pt (ScrollBounds h)) \<le> 0" and "0 \<le> Y (Max_pt (ScrollBounds h))"
  shows "AreaOp_add K a ops push =
           Inr (ops\<lparr>data := data ops @ [TypeArea K, kind a]
                  @ le32 (X (Min_pt (rect a))) @ le32 (Y (Min_pt (rect a)))
                  @ le32 (X (Max_pt (rect a))) @ le32 (Y (Max_pt (rect a)))
                  @ replicate (TypeAreaLen K - 18) 0\<rparr>)
       \<and> length (appended ops (AreaOp_add K a ops push)) = TypeAreaLen K
       \<and> InputOp_Add K h ops =
           Inr (ops\<lparr>data := data ops
                      @ [TypePointerInput K, if Grab h then 1 else 0, Types h]
                      @ le32 (X (Min_pt (ScrollBounds h))) @ le32 (Y (Min_pt (ScrollBounds h)))
                      @ le32 (X (Max_pt (ScrollBounds h))) @ le32 (Y (Max_pt (ScrollBounds h)))
                      @ replicate (TypePointerInputLen K - 19) 0,
                    refs := refs ops @ [RefTag t]\<rparr>)
       \<and> length (appended ops (InputOp_Add K h ops)) = TypePointerInputLen K
       \<and> CursorNameOp_Add K c ops =
           Inr (ops\<lparr>data := data ops @ TypeCursor K # replicate (TypeCursorLen K - 1) 0,
                refs := refs ops @ [RefCursorName (Name c)]\<rparr>)
       \<and> length (appended ops (CursorNameOp_Add K c ops)) = TypeCursorLen K"
proof -
  note A = AreaOp_add_layout [OF assms(1), of a ops push]
  note I = InputOp_Add_layout [OF assms(2) assms(4) assms(5) assms(6) assms(7) assms(8), of ops]
  note C = CursorNameOp_Add_layout [OF assms(3), of c ops]
  have la: "length (appended ops (AreaOp_add K a ops push)) = TypeAreaLen K"
    using assms(1) unfolding A by (simp add: appended_def)
  have li: "length (appended ops (InputOp_Add K h ops)) = TypePointerInputLen K"
    using assms(2) unfolding I by (simp add: appended_def)
  have lc: "length (appended ops (CursorNameOp_Add K c ops)) = TypeCursorLen K"
    using assms(3) unfolding C by (simp add: appended_def)
  show ?thesis
    using A la I li C lc by (intro conjI)
qed

theorem record_layout_witness:
  "InputOp_Add sample_consts sample_InputOp empty_Ops =
       Inr \<lparr>data = [32, 1, 64, 253, 255, 255, 255, 252, 255, 255, 255, 5, 0, 0, 0, 2, 1, 0, 0],
            refs = [RefTag (TagId 7)]\<rparr>
   \<and> InputOp_Add sample_consts (sample_InputOp\<lparr>Grab := False\<rparr>) empty_Ops =
       Inr \<lparr>data = [32, 0, 64, 253, 255, 255, 255, 252, 255, 255, 255, 5, 0, 0, 0, 2, 1, 0, 0],
            refs = [RefTag (TagId 7)]\<rparr>
   \<and> AreaOp_add sample_consts
         (Ellipse \<lparr>Min_pt = \<lparr>X = - 1, Y = 2\<rparr>, Max_pt = \<lparr>X = 65536, Y = 16777217\<rparr>\<rparr>)
         empty_Ops True =
       Inr \<lparr>data = [38, 1, 255, 255, 255, 255, 2, 0, 0, 0, 0, 0, 1, 0, 1, 0, 0, 1],
            refs = []\<rparr>
   \<and> CursorNameOp_Add sample_consts \<lparr>Name = ''text''\<rparr> empty_Ops =
       Inr \<lparr>data = [40], refs = [RefCursorName ''text'']\<rparr>"
proof -
  have l: "18 \<le> TypeAreaLen sample_consts" "19 \<le> TypePointerInputLen sample_consts"
    "1 \<le> TypeCursorLen sample_consts"
    by (simp_all add: sample_consts_def)
  have t: "Tag sample_InputOp = Some (TagId 7)"
    "Tag (sample_InputOp\<lparr>Grab := False\<rparr>) = Some (TagId 7)"
    by (simp_all add: sample_InputOp_def)
  have b: "X (Min_pt (ScrollBounds sample_InputOp)) \<le> 0"
    "0 \<le> X (Max_pt (ScrollBounds sample_InputOp))"
    "Y (Min_pt (ScrollBounds sample_InputOp)) \<le> 0"
    "0 \<le> Y (Max_pt (ScrollBounds sample_InputOp))"
    by (simp_all add: sample_InputOp_def)
  have b': "X (Min_pt (ScrollBounds (sample_InputOp\<lparr>Grab := False\<rparr>))) \<le> 0"
    "0 \<le> X (Max_pt (ScrollBounds (sample_InputOp\<lparr>Grab := False\<rparr>)))"
    "Y (Min_pt (ScrollBounds (sample_InputOp\<lparr>Grab := False\<rparr>))) \<le> 0"
    "0 \<le> Y (Max_pt (ScrollBounds (sample_InputOp\<lparr>Grab := False\<rparr>)))"
    by (simp_all add: sample_InputOp_def)
  show ?thesis
    using record_layout [OF l t(1) b,
        of "Ellipse \<lparr>Min_pt = \<lparr>X = - 1, Y = 2\<rparr>, Max_pt = \<lparr>X = 65536, Y = 16777217\<rparr>\<rparr>"
           empty_Ops True "\<lparr>Name = ''text''\<rparr>"]
      record_layout [OF l t(2) b',
        of "Ellipse \<lparr>Min_pt = \<lparr>X = - 1, Y = 2\<rparr>, Max_pt = \<lparr>X = 65536, Y = 16777217\<rparr>\<rparr>"
           empty_Ops True "\<lparr>Name = ''text''\<rparr>"]
    by (simp add: sample_consts_def sample_InputOp_def empty_Ops_def le32_def Ellipse_def
        areaEllipse_def Scroll_def)
qed

section \<open>Properties of package headless\<close>

subsection \<open>Backend selection\<close>

text \<open>
  Claim C3. \<open>newContext\<close> tries the primary strategy and then the fallback, skipping a
  strategy that is \<^verbatim>\<open>nil\<close>, and returns the context of the first one that succeeds (the
  fallback is not called once the primary has succeeded). When every configured strategy
  fails, the error is the one of the first that failed. When no strategy is configured,
  the error is the one made for this case, \<open>x11: no available GPU backends\<close>.
\<close>

theorem newContext_selection:
  "newContext B tr =
    (case newContextPrimary B of
       None \<Rightarrow>
         (case newContextFallback B of
            None \<Rightarrow> (Inl (ErrorsNew ''x11: no available GPU backends''), tr)
          | Some g \<Rightarrow> (g tr, tr @ [Ev_newContext Fallback]))
     | Some f \<Rightarrow>
         (case f tr of
            Inr c \<Rightarrow> (Inr c, tr @ [Ev_newContext Primary])
          | Inl e \<Rightarrow>
              (case newContextFallback B of
                 None \<Rightarrow> (Inl e, tr @ [Ev_newContext Primary])
               | Some g \<Rightarrow>
                   (case g (tr @ [Ev_newContext Primary]) of
                      Inr c \<Rightarrow> (Inr c, tr @ [Ev_newContext Primary, Ev_newContext Fallback])
                    | Inl e2 \<Rightarrow> (Inl e, tr @ [Ev_newContext Primary, Ev_newContext Fallback])))))"
  by (simp add: newContext_def split: option.splits sum.splits)

subsection \<open>Runs of the window operations\<close>

lemma Frame_run:
  assumes "ctx w = Some c" "gpu w = Some g"
  shows "Window_Frame B frame (w, tr) =
    (case MakeCurrent B tr c of
       None \<Rightarrow>
        (Inr (gpu_Frame B (tr @ [Ev_MakeCurrent c, Ev_Clear g (NRGBA 0 0 0 0)]) g frame
                (fboTex w) (size_w w)),
         w,
         tr @ [Ev_MakeCurrent c, Ev_Clear g (NRGBA 0 0 0 0),
               Ev_Frame g frame (fboTex w) (size_w w), Ev_ReleaseCurrent c])
     | Some e \<Rightarrow> (Inr (Some e), w, tr @ [Ev_MakeCurrent c]))"
  using assms
  by (simp add: Window_Frame_def contextDo_def Frame_body_def Let_def
      split: option.splits sum.splits prod.splits)

lemma Screenshot_run:
  assumes "ctx w = Some c" and "dev w = Some d" and "fboTex w = Some t"
    and "0 \<le> X (size_w w)" and "0 \<le> Y (size_w w)"
    and "4 * X (size_w w) * Y (size_w w) \<le> maxInt B"
  shows "Window_Screenshot B (w, tr) =
    (case MakeCurrent B tr c of
       None \<Rightarrow>
        (case DownloadImage B (tr @ [Ev_MakeCurrent c]) d t
                \<lparr>Min_pt = \<lparr>X = 0, Y = 0\<rparr>, Max_pt = size_w w\<rparr> of
           Inr im \<Rightarrow> (Inr (Some im, None), w,
              tr @ [Ev_MakeCurrent c, Ev_DownloadImage d t
                \<lparr>Min_pt = \<lparr>X = 0, Y = 0\<rparr>, Max_pt = size_w w\<rparr>, Ev_ReleaseCurrent c])
         | Inl err \<Rightarrow> (Inr (None, Some err), w,
              tr @ [Ev_MakeCurrent c, Ev_DownloadImage d t
                \<lparr>Min_pt = \<lparr>X = 0, Y = 0\<rparr>, Max_pt = size_w w\<rparr>, Ev_ReleaseCurrent c]))
     | Some e \<Rightarrow> (Inr (None, Some e), w, tr @ [Ev_MakeCurrent c]))"
  using assms
  by (simp add: Window_Screenshot_def contextDo_def Screenshot_body_def
      driver_DownloadImage_def Let_def split: option.splits sum.splits prod.splits)

lemma Screenshot_on_nil_resource:
  assumes "ctx w = Some c" and "MakeCurrent B tr c = None"
    and "dev w = None \<or> fboTex w = None"
  shows "panics (fst (Window_Screenshot B (w, tr)))"
  using assms
  by (auto simp add: Window_Screenshot_def contextDo_def Screenshot_body_def
      driver_DownloadImage_def Let_def panics_def split: option.splits sum.splits prod.splits)

lemma Screenshot_half_built_run:
  "Window_Screenshot texfail_backend
     (\<lparr>size_w = \<lparr>X = 4, Y = 4\<rparr>, ctx = Some (Context 1), dev = None, gpu = None,
        fboTex = None\<rparr>, tr) =
   (Inl Panic_NilDereference,
    \<lparr>size_w = \<lparr>X = 4, Y = 4\<rparr>, ctx = Some (Context 1), dev = None, gpu = None,
       fboTex = None\<rparr>,
    tr @ [Ev_MakeCurrent (Context 1)])"
  by (simp add: Window_Screenshot_def contextDo_def Screenshot_body_def
      driver_DownloadImage_def texfail_backend_def sample_backend_def)

lemma Frame_window_unchanged:
  "fst (snd (Window_Frame B frame (w, tr))) = w"
  by (simp add: Window_Frame_def contextDo_def Frame_body_def Let_def
      split: option.splits sum.splits prod.splits)

lemma Screenshot_window_unchanged:
  "fst (snd (Window_Screenshot B (w, tr))) = w"
  by (auto simp add: Window_Screenshot_def contextDo_def Screenshot_body_def
      driver_DownloadImage_def Let_def split: option.splits sum.splits prod.splits)

lemma Release_nil_ctx:
  "ctx w = None \<Longrightarrow> Window_Release B (w, tr) = (Inl Panic_NilDereference, w, tr)"
  by (simp add: Window_Release_def contextDo_def)

lemma Release_returns_nil_ctx:
  "Window_Release B (w, tr) = (Inr u, w', tr') \<Longrightarrow> ctx w' = None"
  by (auto simp add: Window_Release_def contextDo_def Release_body_def Let_def
      split: option.splits sum.splits prod.splits)

lemma NewWindow_when_texture_fails:
  assumes "newContext B tr = (Inr c, tr1)"
    and "MakeCurrent B tr1 c = None"
    and "NewDevice B (tr1 @ [Ev_MakeCurrent c]) (ctx_API B c) = Inr d"
    and "NewTexture B (tr1 @ [Ev_MakeCurrent c, Ev_NewDevice (ctx_API B c)]) d width height = Inl err"
  shows "NewWindow B width height tr =
     (Inr (Some \<lparr>size_w = \<lparr>X = width, Y = height\<rparr>, ctx = Some c, dev = None,
                 gpu = None, fboTex = None\<rparr>, None),
      tr1 @ [Ev_MakeCurrent c, Ev_NewDevice (ctx_API B c),
       Ev_NewTexture d TextureFormatSRGBA width height FilterNearest FilterNearest
         BufferBindingFramebuffer,
       Ev_ReleaseCurrent c])"
  using assms
  by (simp add: NewWindow_def contextDo_def NewWindow_body_def Let_def)

lemma NewWindow_when_renderer_fails:
  assumes "newContext B tr = (Inr c, tr1)"
    and "MakeCurrent B tr1 c = None"
    and "NewDevice B (tr1 @ [Ev_MakeCurrent c]) (ctx_API B c) = Inr d"
    and "NewTexture B (tr1 @ [Ev_MakeCurrent c, Ev_NewDevice (ctx_API B c)]) d width height = Inr t"
    and "gpu_New B (tr1 @ [Ev_MakeCurrent c, Ev_NewDevice (ctx_API B c),
       Ev_NewTexture d TextureFormatSRGBA width height FilterNearest FilterNearest
         BufferBindingFramebuffer]) (ctx_API B c) = Inl err"
  shows "NewWindow B width height tr =
     (Inr (None, Some err),
      tr1 @ [Ev_MakeCurrent c, Ev_NewDevice (ctx_API B c),
       Ev_NewTexture d TextureFormatSRGBA width height FilterNearest FilterNearest
         BufferBindingFramebuffer, Ev_gpu_New (ctx_API B c),
       Ev_Release_Texture t, Ev_Release_Device d,
       Ev_ReleaseCurrent c, Ev_Release_context c])"
  using assms
  by (simp add: NewWindow_def contextDo_def NewWindow_body_def Let_def)

subsection \<open>Construction and release\<close>

text \<open>
  Claim C1. The run of \<open>NewWindow\<close>, for every width and height, on a backend whose
  texture creation fails: the closure returns \<^verbatim>\<open>nil\<close> at that point, so \<open>NewWindow\<close>
  returns a window without device, renderer and texture together with a \<^verbatim>\<open>nil\<close> error;
  neither the device nor the context is released, and the failure of the texture is not
  reported. (When the renderer cannot be created, lemma \<open>NewWindow_when_renderer_fails\<close>, the
  texture, the device and the context are released and the error is returned.)
\<close>

theorem NewWindow_texture_failure_run:
  "NewWindow texfail_backend width height [] =
     (Inr (Some \<lparr>size_w = \<lparr>X = width, Y = height\<rparr>, ctx = Some (Context 1), dev = None,
                 gpu = None, fboTex = None\<rparr>, None),
      [Ev_newContext Primary, Ev_MakeCurrent (Context 1), Ev_NewDevice (API 3),
       Ev_NewTexture (Device 1) TextureFormatSRGBA width height FilterNearest FilterNearest
         BufferBindingFramebuffer,
       Ev_ReleaseCurrent (Context 1)])"
  by (simp add: NewWindow_def newContext_def contextDo_def NewWindow_body_def Let_def
      texfail_backend_def sample_backend_def)

text \<open>
  Claim C2. The run of \<open>Release\<close> twice on the window that \<open>NewWindow\<close> has built: the
  first call releases texture, renderer, device and context and sets the four fields to
  \<^verbatim>\<open>nil\<close>; the second call hands the \<^verbatim>\<open>nil\<close> context to \<open>contextDo\<close>, whose worker calls
  \<open>MakeCurrent\<close> on it and panics. No resource is released a second time, but the call is
  not a no-op that returns.
\<close>

theorem Release_twice_run:
  "NewWindow sample_backend 4 4 [] = (Inr (Some sample_Window, None), built_trace)
   \<and> Window_Release sample_backend (sample_Window, built_trace) =
     (Inr (), released_Window,
      built_trace @
      [Ev_MakeCurrent (Context 1), Ev_Release_Texture (Texture 1), Ev_Release_GPU (GPU 1),
       Ev_Release_Device (Device 1), Ev_ReleaseCurrent (Context 1),
       Ev_Release_context (Context 1)])
   \<and> Window_Release sample_backend
       (released_Window,
        built_trace @
        [Ev_MakeCurrent (Context 1), Ev_Release_Texture (Texture 1), Ev_Release_GPU (GPU 1),
         Ev_Release_Device (Device 1), Ev_ReleaseCurrent (Context 1),
         Ev_Release_context (Context 1)]) =
     (Inl Panic_NilDereference, released_Window,
      built_trace @
      [Ev_MakeCurrent (Context 1), Ev_Release_Texture (Texture 1), Ev_Release_GPU (GPU 1),
       Ev_Release_Device (Device 1), Ev_ReleaseCurrent (Context 1),
       Ev_Release_context (Context 1)])"
  by (simp add: NewWindow_def newContext_def contextDo_def NewWindow_body_def Let_def
      Window_Release_def Release_body_def sample_backend_def sample_Window_def
      released_Window_def built_trace_def)

subsection \<open>Frame and Screenshot\<close>

text \<open>
  Claim C7, as stated, fails on a window whose context, after the construction, cannot be
  made current any more: \<open>Frame\<close> returns the error of \<open>MakeCurrent\<close>, and the renderer is
  neither cleared nor given the frame.
\<close>

theorem Frame_counterexample:
  "NewWindow lost_backend 4 4 [] = (Inr (Some sample_Window, None), built_trace)
   \<and> Window_Frame lost_backend empty_Ops (sample_Window, built_trace) =
     (Inr (Some (BackendError 5)), sample_Window, built_trace @ [Ev_MakeCurrent (Context 1)])
   \<and> \<not> Frame_as_stated lost_backend empty_Ops (sample_Window, built_trace)"
  by (simp add: Frame_as_stated_def Window_Frame_def contextDo_def lost_backend_def
      sample_backend_def sample_Window_def built_trace_def NewWindow_def newContext_def
      NewWindow_body_def Let_def)

text \<open>
  Claim C7, amended. On a window whose context and renderer are not \<^verbatim>\<open>nil\<close>: when the
  context can be made current, \<open>Frame\<close> clears the renderer to transparent black, then
  submits the buffer with the window's texture and size, and returns exactly the error of
  that submission; when it cannot, \<open>Frame\<close> returns the error of \<open>MakeCurrent\<close> and
  neither clears nor submits.
\<close>

theorem Frame_when_current:
  assumes "ctx w = Some c" and "gpu w = Some g"
  shows "(MakeCurrent B tr c = None \<longrightarrow>
            Window_Frame B frame (w, tr) =
              (Inr (gpu_Frame B (tr @ [Ev_MakeCurrent c, Ev_Clear g (NRGBA 0 0 0 0)]) g frame
                      (fboTex w) (size_w w)),
               w,
               tr @ [Ev_MakeCurrent c, Ev_Clear g (NRGBA 0 0 0 0),
                     Ev_Frame g frame (fboTex w) (size_w w), Ev_ReleaseCurrent c])
            \<and> Frame_as_stated B frame (w, tr))
       \<and> (\<forall>e. MakeCurrent B tr c = Some e \<longrightarrow>
            Window_Frame B frame (w, tr) = (Inr (Some e), w, tr @ [Ev_MakeCurrent c]))"
  using assms by (simp add: Frame_run [OF assms] Frame_as_stated_def)

theorem Frame_when_current_witness:
  "Window_Frame sample_backend empty_Ops (sample_Window, built_trace) =
     (Inr None, sample_Window,
      built_trace @
      [Ev_MakeCurrent (Context 1), Ev_Clear (GPU 1) (NRGBA 0 0 0 0),
       Ev_Frame (GPU 1) empty_Ops (Some (Texture 1)) \<lparr>X = 4, Y = 4\<rparr>,
       Ev_ReleaseCurrent (Context 1)])
   \<and> Frame_as_stated sample_backend empty_Ops (sample_Window, built_trace)
   \<and> Window_Frame lost_backend empty_Ops (sample_Window, built_trace) =
     (Inr (Some (BackendError 5)), sample_Window, built_trace @ [Ev_MakeCurrent (Context 1)])"
proof -
  have c: "ctx sample_Window = Some (Context 1)" and g: "gpu sample_Window = Some (GPU 1)"
    by (simp_all add: sample_Window_def)
  have m: "MakeCurrent sample_backend built_trace (Context 1) = None"
    by (simp add: sample_backend_def)
  have n: "MakeCurrent lost_backend built_trace (Context 1) = Some (BackendError 5)"
    by (simp add: lost_backend_def built_trace_def)
  have f: "gpu_Frame sample_backend tr (GPU 1) empty_Ops t sz = None" for tr t sz
    by (simp add: sample_backend_def)
  show ?thesis
    using Frame_when_current [OF c g, of sample_backend built_trace empty_Ops]
      Frame_when_current [OF c g, of lost_backend built_trace empty_Ops] m n f
    by (simp add: sample_Window_def)
qed

text \<open>
  Claim C8, as stated, fails on a window whose context, after the construction, cannot be
  made current any more: \<open>Screenshot\<close> returns no bitmap and the error of \<open>MakeCurrent\<close>,
  although no readback has failed (none was asked for, and the backend would have
  answered it).
\<close>

theorem Screenshot_counterexample:
  "NewWindow lost_backend 4 4 [] = (Inr (Some sample_Window, None), built_trace)
   \<and> Window_Screenshot lost_backend (sample_Window, built_trace) =
     (Inr (None, Some (BackendError 5)), sample_Window,
      built_trace @ [Ev_MakeCurrent (Context 1)])
   \<and> \<not> Screenshot_as_stated lost_backend (sample_Window, built_trace)"
  by (simp add: Screenshot_as_stated_def Window_Screenshot_def contextDo_def
      driver_DownloadImage_def lost_backend_def sample_backend_def sample_Window_def
      built_trace_def NewWindow_def newContext_def NewWindow_body_def Let_def)

text \<open>
  Claim C8, amended. On a window that is fully built: context, device and texture are not
  \<^verbatim>\<open>nil\<close>, and the size is not negative and small enough for the pixel buffer of the
  bitmap (four bytes a pixel) to have a length that fits an \<^verbatim>\<open>int\<close>. When the context can
  be made current, \<open>Screenshot\<close> asks for the readback of exactly the region from \<open>(0,0)\<close>
  to the window's size, and returns its bitmap with a \<^verbatim>\<open>nil\<close> error, or no bitmap and the
  error of the readback when the readback fails; when the context cannot be made current,
  \<open>Screenshot\<close> returns no bitmap and the error of \<open>MakeCurrent\<close>, without any readback.
  So on such a window it fails exactly when \<open>MakeCurrent\<close> or the readback fails. Nothing
  is said of a window without device or texture: there the call panics (lemma
  \<open>Screenshot_on_nil_resource\<close>).
\<close>

theorem Screenshot_when_current:
  assumes "ctx w = Some c" and "dev w = Some d" and "fboTex w = Some t"
    and "0 \<le> X (size_w w)" and "0 \<le> Y (size_w w)"
    and "4 * X (size_w w) * Y (size_w w) \<le> maxInt B"
  shows "(MakeCurrent B tr c = None \<longrightarrow>
            Window_Screenshot B (w, tr) =
              (case DownloadImage B (tr @ [Ev_MakeCurrent c]) d t
                      \<lparr>Min_pt = \<lparr>X = 0, Y = 0\<rparr>, Max_pt = size_w w\<rparr> of
                 Inr im \<Rightarrow>
                   (Inr (Some im, None), w,
                    tr @ [Ev_MakeCurrent c,
                          Ev_DownloadImage d t
                            \<lparr>Min_pt = \<lparr>X = 0, Y = 0\<rparr>, Max_pt = size_w w\<rparr>,
                          Ev_ReleaseCurrent c])
               | Inl err \<Rightarrow>
                   (Inr (None, Some err), w,
                    tr @ [Ev_MakeCurrent c,
                          Ev_DownloadImage d t
                            \<lparr>Min_pt = \<lparr>X = 0, Y = 0\<rparr>, Max_pt = size_w w\<rparr>,
                          Ev_ReleaseCurrent c]))
            \<and> Screenshot_as_stated B (w, tr))
       \<and> (\<forall>e. MakeCurrent B tr c = Some e \<longrightarrow>
            Window_Screenshot B (w, tr) = (Inr (None, Some e), w, tr @ [Ev_MakeCurrent c]))"
  using assms
  by (simp add: Screenshot_run [OF assms] Screenshot_as_stated_def driver_DownloadImage_def
      split: sum.splits)

theorem Screenshot_when_current_witness:
  "Window_Screenshot sample_backend (sample_Window, built_trace) =
     (Inr (Some \<lparr>Pix = [], Stride = 0,
                 Rect_b = \<lparr>Min_pt = \<lparr>X = 0, Y = 0\<rparr>, Max_pt = \<lparr>X = 4, Y = 4\<rparr>\<rparr>\<rparr>, None),
      sample_Window,
      built_trace @
      [Ev_MakeCurrent (Context 1),
       Ev_DownloadImage (Device 1) (Texture 1)
         \<lparr>Min_pt = \<lparr>X = 0, Y = 0\<rparr>, Max_pt = \<lparr>X = 4, Y = 4\<rparr>\<rparr>,
       Ev_ReleaseCurrent (Context 1)])
   \<and> Screenshot_as_stated sample_backend (sample_Window, built_trace)
   \<and> Window_Screenshot lost_backend (sample_Window, built_trace) =
     (Inr (None, Some (BackendError 5)), sample_Window,
      built_trace @ [Ev_MakeCurrent (Context 1)])"
proof -
  have c: "ctx sample_Window = Some (Context 1)" and dv: "dev sample_Window = Some (Device 1)"
    and tx: "fboTex sample_Window = Some (Texture 1)"
    and sx: "0 \<le> X (size_w sample_Window)" and sy: "0 \<le> Y (size_w sample_Window)"
    by (simp_all add: sample_Window_def)
  have a: "4 * X (size_w sample_Window) * Y (size_w sample_Window) \<le> maxInt sample_backend"
    by (simp add: sample_Window_def sample_backend_def)
  have b: "4 * X (size_w sample_Window) * Y (size_w sample_Window) \<le> maxInt lost_backend"
    by (simp add: sample_Window_def sample_backend_def lost_backend_def)
  have m: "MakeCurrent sample_backend built_trace (Context 1) = None"
    by (simp add: sample_backend_def)
  have n: "MakeCurrent lost_backend built_trace (Context 1) = Some (BackendError 5)"
    by (simp add: lost_backend_def built_trace_def)
  have r: "DownloadImage sample_backend tr' d' t' r' = Inr \<lparr>Pix = [], Stride = 0, Rect_b = r'\<rparr>"
    for tr' d' t' r'
    by (simp add: sample_backend_def)
  show ?thesis
    using Screenshot_when_current [OF c dv tx sx sy a, of built_trace]
      Screenshot_when_current [OF c dv tx sx sy b, of built_trace] m n r
    by (simp add: sample_Window_def)
qed

text \<open>
  Claim C9. Whatever \<open>Frame\<close> or \<open>Screenshot\<close> returns, and so in particular when the call
  fails, the window is as it was (context, device, renderer, texture and size), the events
  before the call are untouched, and no event of the call releases a resource.
\<close>

theorem Frame_Screenshot_keep_Window:
  "fst (snd (Window_Frame B frame (w, tr))) = w
   \<and> take (length tr) (snd (snd (Window_Frame B frame (w, tr)))) = tr
   \<and> filter is_release (drop (length tr) (snd (snd (Window_Frame B frame (w, tr))))) = []
   \<and> fst (snd (Window_Screenshot B (w, tr))) = w
   \<and> take (length tr) (snd (snd (Window_Screenshot B (w, tr)))) = tr
   \<and> filter is_release (drop (length tr) (snd (snd (Window_Screenshot B (w, tr))))) = []"
proof -
  have f: "\<exists>es. snd (snd (Window_Frame B frame (w, tr))) = tr @ es \<and> filter is_release es = []"
    by (simp add: Window_Frame_def contextDo_def Frame_body_def Let_def
        split: option.splits sum.splits prod.splits)
  have s: "\<exists>es. snd (snd (Window_Screenshot B (w, tr))) = tr @ es \<and> filter is_release es = []"
    by (auto simp add: Window_Screenshot_def contextDo_def Screenshot_body_def
        driver_DownloadImage_def Let_def split: option.splits sum.splits prod.splits)
  from f obtain es where es: "snd (snd (Window_Frame B frame (w, tr))) = tr @ es"
    "filter is_release es = []" by blast
  from s obtain es' where es': "snd (snd (Window_Screenshot B (w, tr))) = tr @ es'"
    "filter is_release es' = []" by blast
  show ?thesis
    using Frame_window_unchanged [of B frame w tr] Screenshot_window_unchanged [of B w tr]
    by (simp add: es es')
qed

end
